theory Spec2Isabelle
  imports Main "HOL-Library.Word"
begin

section \<open>JavaScript values\<close>

text \<open>
  A JavaScript string is a sequence of UTF-16 code units. The regular expressions of the
  source have no \<open>u\<close> flag, so they too work on code units.
\<close>

type_synonym code_unit = "16 word"
type_synonym jsstring = "code_unit list"

definition ascii :: "string \<Rightarrow> jsstring" where
  "ascii s = map of_char s"

text \<open>
  The values that \<open>JSON.parse\<close> and \<open>response.json()\<close> can produce, and \<open>undefined\<close>.
  A number is kept as the decimal its text denotes: \<open>JNum neg d e\<close> is \<open>d * 10^e\<close>, negated
  when \<open>neg\<close>. The handler never calculates with a number; it only asks whether one is
  zero or positive.
\<close>

datatype jsvalue =
    JUndefined
  | JNull
  | JBool bool
  | JNum bool nat int
  | JStr jsstring
  | JArr "jsvalue list"
  | JObj "(jsstring \<times> jsvalue) list"

text \<open>
  Whether the double nearest to \<open>d * 10^e\<close> is not zero. Half the smallest subnormal,
  \<open>2^-1075\<close>, and everything below it round to zero.
\<close>

definition dec_nonzero :: "nat \<Rightarrow> int \<Rightarrow> bool" where
  "dec_nonzero d e \<longleftrightarrow> d \<noteq> 0 \<and> (0 \<le> e \<or> 10 ^ nat (- e) < d * 2 ^ 1075)"

text \<open>ToBoolean.\<close>

fun truthy :: "jsvalue \<Rightarrow> bool" where
  "truthy JUndefined = False"
| "truthy JNull = False"
| "truthy (JBool b) = b"
| "truthy (JNum neg d e) = dec_nonzero d e"
| "truthy (JStr s) = (s \<noteq> [])"
| "truthy (JArr xs) = True"
| "truthy (JObj kvs) = True"

text \<open>
  The white space and line terminators that \<open>String.prototype.trim\<close> removes and that
  the conversion of a string to a number skips.
\<close>

definition is_js_space :: "code_unit \<Rightarrow> bool" where
  "is_js_space c \<longleftrightarrow>
     c = 0x0009 \<or> c = 0x000A \<or> c = 0x000B \<or> c = 0x000C \<or> c = 0x000D \<or> c = 0x0020 \<or>
     c = 0x00A0 \<or> c = 0x1680 \<or> (0x2000 \<le> c \<and> c \<le> 0x200A) \<or> c = 0x2028 \<or> c = 0x2029 \<or>
     c = 0x202F \<or> c = 0x205F \<or> c = 0x3000 \<or> c = 0xFEFF"

definition js_trim :: "jsstring \<Rightarrow> jsstring" where
  "js_trim s = rev (dropWhile is_js_space (rev (dropWhile is_js_space s)))"

definition is_digit :: "code_unit \<Rightarrow> bool" where
  "is_digit c \<longleftrightarrow> 0x30 \<le> c \<and> c \<le> 0x39"

definition digits_value :: "code_unit list \<Rightarrow> nat" where
  "digits_value ds = foldl (\<lambda>a c. 10 * a + unat (c - 0x30)) 0 ds"

subsection \<open>Property reads\<close>

text \<open>
  The exceptions the engine itself raises in the handler. The text of their messages is
  left to the implementation by the language standard.
\<close>

datatype engine_error =
    Fetch_failed
  | JSON_syntax_error
  | Read_of_nullish
  | Not_a_function

text \<open>The index a property key denotes on an array or a string, if it is a canonical one.\<close>

definition array_index :: "jsstring \<Rightarrow> nat option" where
  "array_index k =
     (if k = [0x30] then Some 0
      else if k \<noteq> [] \<and> list_all is_digit k \<and> hd k \<noteq> 0x30 then Some (digits_value k)
      else None)"

text \<open>
  \<open>v.k\<close> and \<open>v[k]\<close>: reading from \<open>undefined\<close> or \<open>null\<close> throws a TypeError;
  an object gives its own property (of a key that the JSON text repeats, the last one);
  an array and a string give \<open>length\<close> and their elements; everything else gives
  \<open>undefined\<close>. Properties inherited from the prototypes are functions; the handler reads
  none of them through this function.
\<close>

fun js_get :: "jsvalue \<Rightarrow> jsstring \<Rightarrow> engine_error + jsvalue" where
  "js_get JUndefined k = Inl Read_of_nullish"
| "js_get JNull k = Inl Read_of_nullish"
| "js_get (JObj kvs) k = Inr (case map_of (rev kvs) k of Some v \<Rightarrow> v | None \<Rightarrow> JUndefined)"
| "js_get (JArr xs) k =
     Inr (if k = ascii ''length'' then JNum False (length xs) 0
          else case array_index k of
                 Some i \<Rightarrow> if i < length xs then xs ! i else JUndefined
               | None \<Rightarrow> JUndefined)"
| "js_get (JStr s) k =
     Inr (if k = ascii ''length'' then JNum False (length s) 0
          else case array_index k of
                 Some i \<Rightarrow> if i < length s then JStr [s ! i] else JUndefined
               | None \<Rightarrow> JUndefined)"
| "js_get (JBool b) k = Inr JUndefined"
| "js_get (JNum neg d e) k = Inr JUndefined"

subsection \<open>The comparison \<open>x > 0\<close>\<close>

text \<open>
  \<open>x > 0\<close> converts \<open>x\<close> to a number. For a string that is StringToNumber: white space
  around a numeric literal, which is \<open>Infinity\<close>, a signed decimal, or an unsigned
  hexadecimal, octal or binary integer; the empty string is 0 and anything else is NaN.
\<close>

text \<open>An optional exponent part at the end of a decimal literal: its value, if well formed.\<close>

definition exponent_part :: "code_unit list \<Rightarrow> int option" where
  "exponent_part cs =
     (case cs of
        [] \<Rightarrow> Some 0
      | c # r \<Rightarrow>
          if c = 0x65 \<or> c = 0x45 then
            (case r of
               [] \<Rightarrow> None
             | s # ds \<Rightarrow>
                 if s = 0x2B then
                   (if ds \<noteq> [] \<and> list_all is_digit ds then Some (int (digits_value ds)) else None)
                 else if s = 0x2D then
                   (if ds \<noteq> [] \<and> list_all is_digit ds then Some (- int (digits_value ds)) else None)
                 else if list_all is_digit r then Some (int (digits_value r))
                 else None)
          else None)"

text \<open>
  An unsigned decimal literal of StringToNumber, other than \<open>Infinity\<close>: digits with an
  optional fraction, or a fraction alone, then an optional exponent. The result is whether
  its value is a nonzero double; \<open>None\<close> when the text is no such literal.
\<close>

definition unsigned_decimal_nonzero :: "code_unit list \<Rightarrow> bool option" where
  "unsigned_decimal_nonzero cs =
     (let ip = takeWhile is_digit cs; r = dropWhile is_digit cs in
      case r of
        c # r' \<Rightarrow>
          if c = 0x2E then
            (let fp = takeWhile is_digit r'; r'' = dropWhile is_digit r' in
             if ip = [] \<and> fp = [] then None
             else case exponent_part r'' of
                    None \<Rightarrow> None
                  | Some x \<Rightarrow> Some (dec_nonzero (digits_value (ip @ fp)) (x - int (length fp))))
          else if ip = [] then None
          else (case exponent_part r of
                  None \<Rightarrow> None
                | Some x \<Rightarrow> Some (dec_nonzero (digits_value ip) x))
      | [] \<Rightarrow> if ip = [] then None else Some (dec_nonzero (digits_value ip) 0))"

definition is_hex_digit :: "code_unit \<Rightarrow> bool" where
  "is_hex_digit c \<longleftrightarrow> is_digit c \<or> (0x41 \<le> c \<and> c \<le> 0x46) \<or> (0x61 \<le> c \<and> c \<le> 0x66)"

text \<open>\<open>0x\<close>, \<open>0o\<close> and \<open>0b\<close> integers: positive when some digit is not \<open>0\<close>.\<close>

definition non_decimal_positive :: "code_unit list \<Rightarrow> bool" where
  "non_decimal_positive cs =
     (case cs of
        z # p # ds \<Rightarrow>
          z = 0x30 \<and> ds \<noteq> [] \<and> (\<exists>d \<in> set ds. d \<noteq> 0x30) \<and>
          ((p = 0x78 \<or> p = 0x58) \<and> list_all is_hex_digit ds \<or>
           (p = 0x6F \<or> p = 0x4F) \<and> list_all (\<lambda>d. 0x30 \<le> d \<and> d \<le> 0x37) ds \<or>
           (p = 0x62 \<or> p = 0x42) \<and> list_all (\<lambda>d. d = 0x30 \<or> d = 0x31) ds)
      | _ \<Rightarrow> False)"

definition string_positive :: "jsstring \<Rightarrow> bool" where
  "string_positive s =
     (let t = js_trim s in
      t = ascii ''Infinity'' \<or> t = ascii ''+Infinity'' \<or> non_decimal_positive t \<or>
      (case t of
         [] \<Rightarrow> False
       | c # r \<Rightarrow>
           if c = 0x2D then False
           else unsigned_decimal_nonzero (if c = 0x2B then r else t) = Some True))"

text \<open>
  An array is converted through \<open>toString\<close>, which joins its elements with commas: two or
  more elements give NaN, none gives 0, and a single element gives what the text of that
  element denotes (\<open>undefined\<close> and \<open>null\<close> are joined as the empty text).
\<close>

fun element_positive :: "jsvalue \<Rightarrow> bool" where
  "element_positive (JNum neg d e) = (\<not> neg \<and> dec_nonzero d e)"
| "element_positive (JStr s) = string_positive s"
| "element_positive (JArr [x]) = element_positive x"
| "element_positive v = False"

fun js_gt_zero :: "jsvalue \<Rightarrow> bool" where
  "js_gt_zero (JBool b) = b"
| "js_gt_zero (JNum neg d e) = (\<not> neg \<and> dec_nonzero d e)"
| "js_gt_zero (JStr s) = string_positive s"
| "js_gt_zero (JArr [x]) = element_positive x"
| "js_gt_zero v = False"

section \<open>\<open>JSON.parse\<close>\<close>

text \<open>
  The grammar of ECMA-404, as \<open>JSON.parse\<close> and \<open>response.json()\<close> read it: a lexer
  from code units to tokens, then a parser that keeps the open arrays and objects on a
  stack. \<open>None\<close> is the SyntaxError.
\<close>

datatype token =
    TLBrace | TRBrace | TLBracket | TRBracket | TColon | TComma
  | TString jsstring
  | TLit jsvalue

definition is_json_ws :: "code_unit \<Rightarrow> bool" where
  "is_json_ws c \<longleftrightarrow> c = 0x20 \<or> c = 0x09 \<or> c = 0x0A \<or> c = 0x0D"

definition hex_digit_value :: "code_unit \<Rightarrow> code_unit option" where
  "hex_digit_value c =
     (if is_digit c then Some (c - 0x30)
      else if 0x41 \<le> c \<and> c \<le> 0x46 then Some (c - 0x37)
      else if 0x61 \<le> c \<and> c \<le> 0x66 then Some (c - 0x57)
      else None)"

definition hex4 :: "code_unit \<Rightarrow> code_unit \<Rightarrow> code_unit \<Rightarrow> code_unit \<Rightarrow> code_unit option" where
  "hex4 a b c d =
     (case (hex_digit_value a, hex_digit_value b, hex_digit_value c, hex_digit_value d) of
        (Some w, Some x, Some y, Some z) \<Rightarrow> Some (w * 0x1000 + x * 0x100 + y * 0x10 + z)
      | _ \<Rightarrow> None)"

text \<open>The single-character escapes: \<open>\" \\ \/ \b \f \n \r \t\<close>.\<close>

definition escape :: "code_unit \<Rightarrow> code_unit option" where
  "escape c =
     (if c = 0x22 \<or> c = 0x5C \<or> c = 0x2F then Some c
      else if c = 0x62 then Some 0x08
      else if c = 0x66 then Some 0x0C
      else if c = 0x6E then Some 0x0A
      else if c = 0x72 then Some 0x0D
      else if c = 0x74 then Some 0x09
      else None)"

text \<open>The rest of a string after its opening quote: the string and what follows it.\<close>

fun lex_string :: "code_unit list \<Rightarrow> (jsstring \<times> code_unit list) option" where
  "lex_string [] = None"
| "lex_string (c # cs) =
     (if c = 0x22 then Some ([], cs)
      else if c = 0x5C then
        (case cs of
           [] \<Rightarrow> None
         | e # cs' \<Rightarrow>
             if e = 0x75 then
               (case cs' of
                  h1 # h2 # h3 # h4 # cs'' \<Rightarrow>
                    (case hex4 h1 h2 h3 h4 of
                       None \<Rightarrow> None
                     | Some u \<Rightarrow> map_option (\<lambda>(s, r). (u # s, r)) (lex_string cs''))
                | _ \<Rightarrow> None)
             else
               (case escape e of
                  None \<Rightarrow> None
                | Some u \<Rightarrow> map_option (\<lambda>(s, r). (u # s, r)) (lex_string cs')))
      else if c < 0x20 then None
      else map_option (\<lambda>(s, r). (c # s, r)) (lex_string cs))"

text \<open>
  A number: an optional minus, an integer part without a leading zero, an optional
  fraction, an optional exponent. The result is the number and what follows it.
\<close>

definition lex_exponent :: "code_unit list \<Rightarrow> (int \<times> code_unit list) option" where
  "lex_exponent cs =
     (case cs of
        [] \<Rightarrow> Some (0, [])
      | c # r \<Rightarrow>
          if c = 0x65 \<or> c = 0x45 then
            (case r of
               [] \<Rightarrow> None
             | s # ds \<Rightarrow>
                 if s = 0x2B then
                   (if takeWhile is_digit ds = [] then None
                    else Some (int (digits_value (takeWhile is_digit ds)), dropWhile is_digit ds))
                 else if s = 0x2D then
                   (if takeWhile is_digit ds = [] then None
                    else Some (- int (digits_value (takeWhile is_digit ds)), dropWhile is_digit ds))
                 else if takeWhile is_digit r = [] then None
                 else Some (int (digits_value (takeWhile is_digit r)), dropWhile is_digit r))
          else Some (0, cs))"

definition lex_unsigned :: "bool \<Rightarrow> code_unit list \<Rightarrow> (jsvalue \<times> code_unit list) option" where
  "lex_unsigned neg cs =
     (let ip = takeWhile is_digit cs; r = dropWhile is_digit cs in
      if ip = [] \<or> (hd ip = 0x30 \<and> tl ip \<noteq> []) then None
      else case r of
             c # r' \<Rightarrow>
               if c = 0x2E then
                 (let fp = takeWhile is_digit r'; r'' = dropWhile is_digit r' in
                  if fp = [] then None
                  else case lex_exponent r'' of
                         None \<Rightarrow> None
                       | Some (x, rest) \<Rightarrow>
                           Some (JNum neg (digits_value (ip @ fp)) (x - int (length fp)), rest))
               else (case lex_exponent r of
                       None \<Rightarrow> None
                     | Some (x, rest) \<Rightarrow> Some (JNum neg (digits_value ip) x, rest))
           | [] \<Rightarrow> Some (JNum neg (digits_value ip) 0, []))"

definition lex_number :: "code_unit list \<Rightarrow> (jsvalue \<times> code_unit list) option" where
  "lex_number cs =
     (case cs of
        [] \<Rightarrow> None
      | c # r \<Rightarrow> if c = 0x2D then lex_unsigned True r else lex_unsigned False cs)"

definition starts_with :: "jsstring \<Rightarrow> code_unit list \<Rightarrow> bool" where
  "starts_with w cs \<longleftrightarrow> take (length w) cs = w"

lemma lex_string_shorter: "lex_string cs = Some (s, r) \<Longrightarrow> length r < length cs"
proof (induction cs arbitrary: s r rule: lex_string.induct)
  case 1
  then show ?case by simp
next
  case (2 c cs)
  then show ?case
    by (fastforce split: if_splits list.splits option.splits)
qed

lemma lex_exponent_shorter: "lex_exponent cs = Some (x, r) \<Longrightarrow> length r \<le> length cs"
  unfolding lex_exponent_def
  by (auto split: list.splits if_splits
        intro: le_trans [OF length_dropWhile_le] le_SucI)

lemma lex_unsigned_shorter: "lex_unsigned neg cs = Some (v, r) \<Longrightarrow> length r < length cs"
proof -
  assume a: "lex_unsigned neg cs = Some (v, r)"
  have ne: "takeWhile is_digit cs \<noteq> []"
    using a unfolding lex_unsigned_def by (auto simp: Let_def split: if_splits)
  have sum: "length (takeWhile is_digit cs) + length (dropWhile is_digit cs) = length cs"
    by (metis length_append takeWhile_dropWhile_id)
  from ne sum have drop: "length (dropWhile is_digit cs) < length cs"
    by (cases "takeWhile is_digit cs") auto
  have "length r \<le> length (dropWhile is_digit cs)"
  proof (cases "dropWhile is_digit cs")
    case Nil
    with a show ?thesis
      unfolding lex_unsigned_def by (auto simp: Let_def split: if_splits)
  next
    case (Cons c r')
    show ?thesis
    proof (cases "c = 0x2E")
      case True
      with a Cons obtain x where
        "lex_exponent (dropWhile is_digit r') = Some (x, r)"
        unfolding lex_unsigned_def
        by (auto simp: Let_def split: if_splits option.splits)
      then have "length r \<le> length (dropWhile is_digit r')"
        by (rule lex_exponent_shorter)
      also have "\<dots> \<le> length r'" by (rule length_dropWhile_le)
      finally show ?thesis using Cons by simp
    next
      case False
      with a Cons obtain x where "lex_exponent (c # r') = Some (x, r)"
        unfolding lex_unsigned_def
        by (auto simp: Let_def split: if_splits option.splits)
      then have "length r \<le> length (c # r')" by (rule lex_exponent_shorter)
      then show ?thesis using Cons by simp
    qed
  qed
  with drop show ?thesis by simp
qed

lemma lex_number_shorter: "lex_number cs = Some (v, r) \<Longrightarrow> length r < length cs"
  unfolding lex_number_def
  by (auto split: list.splits if_splits dest: lex_unsigned_shorter)

function lex :: "code_unit list \<Rightarrow> token list option" where
  "lex [] = Some []"
| "lex (c # cs) =
     (if is_json_ws c then lex cs
      else if c = 0x7B then map_option ((#) TLBrace) (lex cs)
      else if c = 0x7D then map_option ((#) TRBrace) (lex cs)
      else if c = 0x5B then map_option ((#) TLBracket) (lex cs)
      else if c = 0x5D then map_option ((#) TRBracket) (lex cs)
      else if c = 0x3A then map_option ((#) TColon) (lex cs)
      else if c = 0x2C then map_option ((#) TComma) (lex cs)
      else if c = 0x22 then
        (case lex_string cs of
           None \<Rightarrow> None
         | Some (s, rest) \<Rightarrow> map_option ((#) (TString s)) (lex rest))
      else if c = 0x2D \<or> is_digit c then
        (case lex_number (c # cs) of
           None \<Rightarrow> None
         | Some (v, rest) \<Rightarrow> map_option ((#) (TLit v)) (lex rest))
      else if starts_with (ascii ''null'') (c # cs) then
        map_option ((#) (TLit JNull)) (lex (drop 3 cs))
      else if starts_with (ascii ''true'') (c # cs) then
        map_option ((#) (TLit (JBool True))) (lex (drop 3 cs))
      else if starts_with (ascii ''false'') (c # cs) then
        map_option ((#) (TLit (JBool False))) (lex (drop 4 cs))
      else None)"
  by pat_completeness auto
termination
proof (relation "measure length", goal_cases)
  case (9 c cs x2 x y)
  then show ?case using lex_string_shorter [of cs x y] by simp
next
  case (10 c cs x2 x y)
  then show ?case using lex_number_shorter [of "c # cs" x y] by simp
qed auto

text \<open>
  The parser. A frame is an open array with the elements read so far, an open object
  with its members, or an open object with the key whose value is being read; the newest
  element or member comes first.
\<close>

datatype frame =
    FArr "jsvalue list"
  | FObj "(jsstring \<times> jsvalue) list"
  | FKey "(jsstring \<times> jsvalue) list" jsstring

datatype mode =
    MValue
  | MFirst
  | MKey
  | MFirstKey
  | MColon
  | MNext
  | MDone jsvalue

text \<open>A finished value goes to the innermost open container, or is the result.\<close>

fun push_value :: "jsvalue \<Rightarrow> frame list \<Rightarrow> (mode \<times> frame list) option" where
  "push_value v [] = Some (MDone v, [])"
| "push_value v (FArr acc # st) = Some (MNext, FArr (v # acc) # st)"
| "push_value v (FKey acc k # st) = Some (MNext, FObj ((k, v) # acc) # st)"
| "push_value v (FObj acc # st) = None"

fun close_array :: "frame list \<Rightarrow> (mode \<times> frame list) option" where
  "close_array (FArr acc # st) = push_value (JArr (rev acc)) st"
| "close_array st = None"

fun close_object :: "frame list \<Rightarrow> (mode \<times> frame list) option" where
  "close_object (FObj acc # st) = push_value (JObj (rev acc)) st"
| "close_object st = None"

text \<open>
  One token. \<open>MValue\<close> wants a value; \<open>MFirst\<close>, just after \<open>[\<close>, a value or \<open>]\<close>;
  \<open>MFirstKey\<close>, just after \<open>{\<close>, a key or \<open>}\<close>; \<open>MKey\<close>, after a comma in an object,
  a key; \<open>MColon\<close> the colon; \<open>MNext\<close>, after a value in a container, a comma or the
  closing bracket; \<open>MDone\<close> nothing more.
\<close>

fun parse_step :: "token \<Rightarrow> mode \<Rightarrow> frame list \<Rightarrow> (mode \<times> frame list) option" where
  "parse_step t (MDone v) st = None"
| "parse_step t MColon st = (if t = TColon then Some (MValue, st) else None)"
| "parse_step t MNext st =
     (case t of
        TComma \<Rightarrow>
          (case st of
             FArr acc # st' \<Rightarrow> Some (MValue, st)
           | FObj acc # st' \<Rightarrow> Some (MKey, st)
           | _ \<Rightarrow> None)
      | TRBracket \<Rightarrow> close_array st
      | TRBrace \<Rightarrow> close_object st
      | _ \<Rightarrow> None)"
| "parse_step t MKey st =
     (case (t, st) of
        (TString k, FObj acc # st') \<Rightarrow> Some (MColon, FKey acc k # st')
      | _ \<Rightarrow> None)"
| "parse_step t MFirstKey st =
     (case (t, st) of
        (TString k, FObj acc # st') \<Rightarrow> Some (MColon, FKey acc k # st')
      | (TRBrace, _) \<Rightarrow> close_object st
      | _ \<Rightarrow> None)"
| "parse_step t m st =
     (case t of
        TLit v \<Rightarrow> push_value v st
      | TString s \<Rightarrow> push_value (JStr s) st
      | TLBracket \<Rightarrow> Some (MFirst, FArr [] # st)
      | TLBrace \<Rightarrow> Some (MFirstKey, FObj [] # st)
      | TRBracket \<Rightarrow> if m = MFirst then close_array st else None
      | _ \<Rightarrow> None)"

fun parse_tokens :: "token list \<Rightarrow> mode \<Rightarrow> frame list \<Rightarrow> jsvalue option" where
  "parse_tokens [] m st = (case m of MDone v \<Rightarrow> Some v | _ \<Rightarrow> None)"
| "parse_tokens (t # ts) m st =
     (case parse_step t m st of
        None \<Rightarrow> None
      | Some (m', st') \<Rightarrow> parse_tokens ts m' st')"

definition JSON_parse :: "jsstring \<Rightarrow> jsvalue option" where
  "JSON_parse s = (case lex s of None \<Rightarrow> None | Some ts \<Rightarrow> parse_tokens ts MValue [])"

section \<open>The translation relay (\<open>background/messages/translate.ts\<close>)\<close>

subsection \<open>Data\<close>

text \<open>
  The settings record the options form stores under the key \<open>data\<close>. A field the form
  left empty is \<open>undefined\<close>, here \<open>None\<close>.
\<close>

record api_config =
  enabled :: "bool option"
  apiUrl :: "jsstring option"
  apiKey :: "jsstring option"
  model :: "jsstring option"

text \<open>
  The body of the message the content script sends: \<open>{text, apiConfig}\<close>, where
  \<open>apiConfig\<close> is \<open>undefined\<close> until settings have been stored.
\<close>

record request =
  body_text :: jsstring
  body_apiConfig :: "api_config option"

text \<open>
  The call to \<open>fetch\<close>. \<open>json_body\<close> is the object handed to \<open>JSON.stringify\<close>.
\<close>

record http_request =
  url :: jsstring
  http_method :: jsstring
  headers :: "(jsstring \<times> jsstring) list"
  json_body :: jsvalue

record http_response =
  ok :: bool
  statusText :: jsstring
  response_text :: jsstring

datatype fetch_result = Responds http_response | Rejects

text \<open>
  The \<open>message\<close> of a caught error: a text the source builds, the prefix
  \<open>API...: \<close> followed by the string conversion of a value that is not a string, or the
  engine's own message for one of its errors.
\<close>

datatype message =
    Text jsstring
  | Api_error_of jsvalue
  | Engine engine_error

text \<open>The object given to \<open>res.send\<close>; an absent key is \<open>None\<close>.\<close>

record relay_response =
  success :: bool
  result :: "jsvalue option"
  error :: "message option"

subsection \<open>String constants of the source\<close>

text \<open>Line 9, the message of the missing key (U+7F3A U+5C11 "API" U+5BC6 U+94A5 U+914D U+7F6E).\<close>

definition missing_key_text :: jsstring where
  "missing_key_text = [0x7F3A, 0x5C11, 0x0041, 0x0050, 0x0049, 0x5BC6, 0x94A5, 0x914D, 0x7F6E]"

definition default_url :: jsstring where
  "default_url = ascii ''https://api.deepseek.com/v1/chat/completions''"

definition default_model :: jsstring where
  "default_model = ascii ''deepseek-chat''"

text \<open>Line 19, the system prompt asking for a translation of Chinese text into English.\<close>

definition prompt_to_english :: jsstring where
  "prompt_to_english =
    [0x4F60, 0x662F, 0x4E00, 0x4E2A, 0x4E13, 0x4E1A, 0x7684, 0x7FFB, 0x8BD1, 0x52A9,
     0x624B, 0x3002, 0x8BF7, 0x5C06, 0x7528, 0x6237, 0x63D0, 0x4F9B, 0x7684, 0x4E2D,
     0x6587, 0x6587, 0x672C, 0x7FFB, 0x8BD1, 0x6210, 0x82F1, 0x6587, 0xFF0C, 0x4FDD,
     0x6301, 0x6587, 0x672C, 0x7684, 0x539F, 0x610F, 0x548C, 0x8BED, 0x6C14, 0x3002,
     0x53EA, 0x8FD4, 0x56DE, 0x7FFB, 0x8BD1, 0x7ED3, 0x679C, 0xFF0C, 0x4E0D, 0x9700,
     0x8981, 0x89E3, 0x91CA, 0x3002, 0x8BF7, 0x4EE5, 0x004A, 0x0053, 0x004F, 0x004E,
     0x683C, 0x5F0F, 0x8F93, 0x51FA, 0xFF0C, 0x683C, 0x5F0F, 0x4E3A, 0xFF1A, 0x007B,
     0x0022, 0x0074, 0x0072, 0x0061, 0x006E, 0x0073, 0x006C, 0x0061, 0x0074, 0x0069,
     0x006F, 0x006E, 0x0022, 0x003A, 0x0020, 0x0022, 0x7FFB, 0x8BD1, 0x540E, 0x7684,
     0x6587, 0x672C, 0x0022, 0x007D]"

text \<open>Line 20, the system prompt asking for a translation into Chinese.\<close>

definition prompt_to_chinese :: jsstring where
  "prompt_to_chinese =
    [0x4F60, 0x662F, 0x4E00, 0x4E2A, 0x4E13, 0x4E1A, 0x7684, 0x7FFB, 0x8BD1, 0x52A9,
     0x624B, 0x3002, 0x8BF7, 0x5C06, 0x7528, 0x6237, 0x63D0, 0x4F9B, 0x7684, 0x6587,
     0x672C, 0x7FFB, 0x8BD1, 0x6210, 0x4E2D, 0x6587, 0xFF0C, 0x4FDD, 0x6301, 0x6587,
     0x672C, 0x7684, 0x539F, 0x610F, 0x548C, 0x8BED, 0x6C14, 0x3002, 0x53EA, 0x8FD4,
     0x56DE, 0x7FFB, 0x8BD1, 0x7ED3, 0x679C, 0xFF0C, 0x4E0D, 0x9700, 0x8981, 0x89E3,
     0x91CA, 0x3002, 0x8BF7, 0x4EE5, 0x004A, 0x0053, 0x004F, 0x004E, 0x683C, 0x5F0F,
     0x8F93, 0x51FA, 0xFF0C, 0x683C, 0x5F0F, 0x4E3A, 0xFF1A, 0x007B, 0x0022, 0x0074,
     0x0072, 0x0061, 0x006E, 0x0073, 0x006C, 0x0061, 0x0074, 0x0069, 0x006F, 0x006E,
     0x0022, 0x003A, 0x0020, 0x0022, 0x7FFB, 0x8BD1, 0x540E, 0x7684, 0x6587, 0x672C,
     0x0022, 0x007D]"

text \<open>Line 58, the prefix \<open>API\<close> U+9519 U+8BEF \<open>: \<close> of the error for a response that is not ok.\<close>

definition api_error_prefix :: jsstring where
  "api_error_prefix = [0x0041, 0x0050, 0x0049, 0x9519, 0x8BEF, 0x003A, 0x0020]"

text \<open>Line 93, the message thrown when the response has not the expected shape.\<close>

definition format_error_text :: jsstring where
  "format_error_text =
    [0x0041, 0x0050, 0x0049, 0x8FD4, 0x56DE, 0x6570, 0x636E, 0x683C, 0x5F0F, 0x4E0D,
     0x7B26, 0x5408, 0x9884, 0x671F]"

text \<open>Lines 99 and 101, the text returned when no content can be extracted.\<close>

definition fallback_text :: jsstring where
  "fallback_text = [0x83B7, 0x53D6, 0x7FFB, 0x8BD1, 0x7ED3, 0x679C, 0x5931, 0x8D25]"

subsection \<open>The handler\<close>

text \<open>\<open>x || d\<close> for a setting that is a string or \<open>undefined\<close>.\<close>

definition js_or :: "jsstring option \<Rightarrow> jsstring \<Rightarrow> jsstring" where
  "js_or x d = (case x of Some s \<Rightarrow> if s \<noteq> [] then s else d | None \<Rightarrow> d)"

text \<open>Line 16: the test of the text for one code unit from U+4E00 to U+9FA5.\<close>

definition relay_isChineseText :: "jsstring \<Rightarrow> bool" where
  "relay_isChineseText text = list_ex (\<lambda>c. 0x4E00 \<le> c \<and> c \<le> 0x9FA5) text"

text \<open>Lines 18 to 20.\<close>

definition systemPrompt :: "jsstring \<Rightarrow> jsstring" where
  "systemPrompt text = (if relay_isChineseText text then prompt_to_english else prompt_to_chinese)"

text \<open>Lines 13 and 28 to 53: the request sent for a configuration whose key is \<open>key\<close>.\<close>

definition build_request :: "api_config \<Rightarrow> jsstring \<Rightarrow> jsstring \<Rightarrow> http_request" where
  "build_request cfg key text =
     \<lparr> url = js_or (apiUrl cfg) default_url,
       http_method = ascii ''POST'',
       headers =
         [(ascii ''Content-Type'', ascii ''application/json''),
          (ascii ''Authorization'', ascii ''Bearer '' @ key)],
       json_body =
         JObj
           [(ascii ''model'', JStr (js_or (model cfg) default_model)),
            (ascii ''messages'',
               JArr
                 [JObj [(ascii ''role'', JStr (ascii ''system'')),
                        (ascii ''content'', JStr (systemPrompt text))],
                  JObj [(ascii ''role'', JStr (ascii ''user'')),
                        (ascii ''content'', JStr text)]]),
            (ascii ''temperature'', JNum False 3 (- 1)),
            (ascii ''response_format'', JObj [(ascii ''type'', JStr (ascii ''json_object''))]),
            (ascii ''max_tokens'', JNum False 2048 0)] \<rparr>"

text \<open>
  Line 58, the template \<open>API...: ${v}\<close>: for a string the text is written out; the string
  conversion of another value is left symbolic.
\<close>

definition api_error :: "jsvalue \<Rightarrow> message" where
  "api_error v = (case v of JStr s \<Rightarrow> Text (api_error_prefix @ s) | _ \<Rightarrow> Api_error_of v)"

text \<open>\<open>v?.k\<close>.\<close>

definition js_get_optional :: "jsvalue \<Rightarrow> jsstring \<Rightarrow> engine_error + jsvalue" where
  "js_get_optional v k = (if v = JUndefined \<or> v = JNull then Inr JUndefined else js_get v k)"

text \<open>
  Lines 55 to 59, the response that is not ok: the error thrown. \<open>response.json()\<close>
  rejects when the body is not JSON, and \<open>errorData.error\<close> throws when the body is
  \<open>null\<close>.
\<close>

definition not_ok_error :: "http_response \<Rightarrow> message" where
  "not_ok_error response =
     (case JSON_parse (response_text response) of
        None \<Rightarrow> Engine JSON_syntax_error
      | Some errorData \<Rightarrow>
          (case js_get errorData (ascii ''error'') of
             Inl e \<Rightarrow> Engine e
           | Inr err \<Rightarrow>
               (case js_get_optional err (ascii ''message'') of
                  Inl e \<Rightarrow> Engine e
                | Inr m \<Rightarrow> api_error (if truthy m then m else JStr (statusText response)))))"

text \<open>
  Lines 79 to 91, for the trimmed content: the \<open>translation\<close> of the parsed content if
  there is a truthy one, else the content itself; also when \<open>JSON.parse\<close> throws.
\<close>

definition parse_content :: "jsstring \<Rightarrow> jsvalue" where
  "parse_content content =
     (case JSON_parse content of
        None \<Rightarrow> JStr content
      | Some jsonResponse \<Rightarrow>
          if truthy jsonResponse then
            (case js_get jsonResponse (ascii ''translation'') of
               Inl e \<Rightarrow> JStr content
             | Inr translation \<Rightarrow> if truthy translation then translation else JStr content)
          else JStr content)"

text \<open>
  Lines 66 to 94, the inner \<open>try\<close> block: the translated text, or the error thrown.
  The condition of line 68 is a chain of \<open>&&\<close>, read from the left; \<open>content.trim()\<close>
  throws when the content is not a string.
\<close>

definition extract_translation :: "jsvalue \<Rightarrow> message + jsvalue" where
  "extract_translation data =
     (if \<not> truthy data then Inl (Text format_error_text)
      else case js_get data (ascii ''choices'') of
        Inl e \<Rightarrow> Inl (Engine e)
      | Inr choices \<Rightarrow>
          if \<not> truthy choices then Inl (Text format_error_text)
          else case js_get choices (ascii ''length'') of
            Inl e \<Rightarrow> Inl (Engine e)
          | Inr len \<Rightarrow>
              if \<not> js_gt_zero len then Inl (Text format_error_text)
              else case js_get choices (ascii ''0'') of
                Inl e \<Rightarrow> Inl (Engine e)
              | Inr first \<Rightarrow>
                  (case js_get first (ascii ''message'') of
                     Inl e \<Rightarrow> Inl (Engine e)
                   | Inr msg \<Rightarrow>
                       if \<not> truthy msg then Inl (Text format_error_text)
                       else case js_get msg (ascii ''content'') of
                         Inl e \<Rightarrow> Inl (Engine e)
                       | Inr content \<Rightarrow>
                           if \<not> truthy content then Inl (Text format_error_text)
                           else (case content of
                                   JStr c \<Rightarrow> Inr (parse_content (js_trim c))
                                 | _ \<Rightarrow> Inl (Engine Not_a_function))))"

text \<open>
  Lines 95 to 103, the \<open>catch\<close> of the inner \<open>try\<close>. An error thrown here leaves the
  handler's outer \<open>try\<close>.
\<close>

definition best_effort :: "jsvalue \<Rightarrow> message + jsvalue" where
  "best_effort data =
     (if \<not> truthy data then Inr (JStr fallback_text)
      else case js_get data (ascii ''choices'') of
        Inl e \<Rightarrow> Inl (Engine e)
      | Inr choices \<Rightarrow>
          if \<not> truthy choices then Inr (JStr fallback_text)
          else case js_get choices (ascii ''length'') of
            Inl e \<Rightarrow> Inl (Engine e)
          | Inr len \<Rightarrow>
              if \<not> js_gt_zero len then Inr (JStr fallback_text)
              else case js_get choices (ascii ''0'') of
                Inl e \<Rightarrow> Inl (Engine e)
              | Inr first \<Rightarrow>
                  (case js_get first (ascii ''message'') of
                     Inl e \<Rightarrow> Inl (Engine e)
                   | Inr msg \<Rightarrow>
                       (case js_get_optional msg (ascii ''content'') of
                          Inl e \<Rightarrow> Inl (Engine e)
                        | Inr content \<Rightarrow>
                            Inr (if truthy content then content else JStr fallback_text))))"

text \<open>Lines 64 to 103.\<close>

definition translated_text :: "jsvalue \<Rightarrow> message + jsvalue" where
  "translated_text data =
     (case extract_translation data of
        Inr translatedText \<Rightarrow> Inr translatedText
      | Inl e \<Rightarrow> best_effort data)"

text \<open>Lines 106 to 109 and 112 to 115, the two calls of \<open>res.send\<close>.\<close>

definition send_success :: "jsvalue \<Rightarrow> relay_response" where
  "send_success translatedText = \<lparr> success = True, result = Some translatedText, error = None \<rparr>"

definition send_failure :: "message \<Rightarrow> relay_response" where
  "send_failure m = \<lparr> success = False, result = None, error = Some m \<rparr>"

text \<open>Lines 55 to 116, once \<open>fetch\<close> has resolved with a response.\<close>

definition handle_response :: "http_response \<Rightarrow> relay_response" where
  "handle_response response =
     (if \<not> ok response then send_failure (not_ok_error response)
      else case JSON_parse (response_text response) of
        None \<Rightarrow> send_failure (Engine JSON_syntax_error)
      | Some data \<Rightarrow>
          (case translated_text data of
             Inl e \<Rightarrow> send_failure e
           | Inr translatedText \<Rightarrow> send_success translatedText))"

text \<open>
  The handler, given what \<open>fetch\<close> does: the response sent and the calls of \<open>fetch\<close> made.
\<close>

definition handler :: "(http_request \<Rightarrow> fetch_result) \<Rightarrow> request \<Rightarrow> relay_response \<times> http_request list" where
  "handler fetch req =
     (case body_apiConfig req of
        None \<Rightarrow> (send_failure (Text missing_key_text), [])
      | Some apiConfig \<Rightarrow>
          (case apiKey apiConfig of
             None \<Rightarrow> (send_failure (Text missing_key_text), [])
           | Some key \<Rightarrow>
               if key = [] then (send_failure (Text missing_key_text), [])
               else
                 (let call = build_request apiConfig key (body_text req) in
                  case fetch call of
                    Rejects \<Rightarrow> (send_failure (Engine Fetch_failed), [call])
                  | Responds response \<Rightarrow> (handle_response response, [call]))))"

section \<open>The selection and popup component (\<open>contents/translate.jsx\<close>)\<close>

subsection \<open>State\<close>

text \<open>
  What a mouse event tells the handlers: whether its composed path holds the translate
  button or the popup, and the selection of the window at that moment, with the left and
  bottom edges of its bounding rectangle in pixels.
\<close>

record pointer =
  on_button :: bool
  on_popup :: bool

record selection =
  selection_text :: jsstring
  rect_left :: int
  rect_bottom :: int

text \<open>
  The error shown in the popup is the prefix of line 573 followed by the message of the
  error caught: the relay's error, the text of line 570 for a missing result, or the
  message of a rejected \<open>sendToBackground\<close>.
\<close>

datatype ui_failure = Relay_error message | No_result | Messaging_failed

datatype relay_outcome = Resolved relay_response | Rejected

datatype timeout_callback = Release_processing_flag | Clear_copied

text \<open>
  The eleven \<open>useState\<close> variables of \<open>TranslateContent\<close> (the error is \<open>popup_error\<close>
  here), the ref \<open>isOutsideClickProcessing\<close>, the stored settings, and what the browser holds
  for the component: whether the two document listeners are installed, the calls of
  \<open>sendToBackground\<close> and of \<open>clipboard.writeText\<close> not yet settled, the timeouts not yet
  due with the milliseconds left, and the number of animation-frame callbacks waiting.
\<close>

record ui_state =
  isButtonVisible :: bool
  isResultVisible :: bool
  selectedText :: jsstring
  position :: "int \<times> int"
  translatedText :: jsvalue
  isLoading :: bool
  popup_error :: "ui_failure option"
  isTranslating :: bool
  copied :: bool
  expandSource :: bool
  expandTranslation :: bool
  isOutsideClickProcessing :: bool
  apiConfig :: "api_config option"
  listening :: bool
  in_flight :: "request list"
  clipboard_writes :: nat
  timers :: "(nat \<times> timeout_callback) list"
  frames :: nat

text \<open>
  The component once mounted: the initial values of lines 400 to 418, and the listeners
  installed by the first run of the effect, the settings being \<open>undefined\<close> until the
  storage has answered.
\<close>

definition initial_state :: ui_state where
  "initial_state =
     \<lparr> isButtonVisible = False, isResultVisible = False, selectedText = [], position = (0, 0),
       translatedText = JStr [], isLoading = False, popup_error = None, isTranslating = False,
       copied = False, expandSource = False, expandTranslation = False,
       isOutsideClickProcessing = False, apiConfig = None, listening = True, in_flight = [],
       clipboard_writes = 0, timers = [], frames = 0 \<rparr>"

subsection \<open>Rendering\<close>

text \<open>Line 421: \<open>apiConfig?.enabled !== false\<close>.\<close>

definition isTranslateEnabled :: "ui_state \<Rightarrow> bool" where
  "isTranslateEnabled s = (case apiConfig s of None \<Rightarrow> True | Some cfg \<Rightarrow> enabled cfg \<noteq> Some False)"

text \<open>Line 36: the test for one code unit from U+4E00 to U+9FA5.\<close>

definition isChineseText :: "jsstring \<Rightarrow> bool" where
  "isChineseText text = list_ex (\<lambda>c. 0x4E00 \<le> c \<and> c \<le> 0x9FA5) text"

text \<open>Line 638, the two labels of the button: "translate into English" and "into Chinese".\<close>

definition label_to_english :: jsstring where
  "label_to_english = [0x7FFB, 0x8BD1, 0x4E3A, 0x82F1, 0x6587]"

definition label_to_chinese :: jsstring where
  "label_to_chinese = [0x7FFB, 0x8BD1, 0x4E3A, 0x4E2D, 0x6587]"

definition buttonText :: "jsstring \<Rightarrow> jsstring" where
  "buttonText text = (if isChineseText text then label_to_english else label_to_chinese)"

text \<open>The text shown in place of a falsy translation.\<close>

definition no_translation_text :: jsstring where
  "no_translation_text = [0x672A, 0x83B7, 0x53D6, 0x5230, 0x7FFB, 0x8BD1, 0x7ED3, 0x679C]"

text \<open>
  What is on the screen. The button shows its label and, for more than 200 code units,
  their number. The popup shows the source, the detected direction and one of: the
  loading notice, the error, or the translation with, when it is truthy, the copy button
  and its \<open>copied\<close> mark.
\<close>

record button_view =
  button_label :: jsstring
  button_position :: "int \<times> int"
  button_count :: "nat option"

datatype popup_content =
    Loading
  | Failed ui_failure
  | Translation jsvalue bool "bool option"

record popup_view =
  popup_position :: "int \<times> int"
  popup_source :: jsstring
  popup_source_expanded :: bool
  popup_chinese :: bool
  popup_shows :: popup_content

record view =
  view_button :: "button_view option"
  view_popup :: "popup_view option"

definition popup_body :: "ui_state \<Rightarrow> popup_content" where
  "popup_body s =
     (if isLoading s then Loading
      else case popup_error s of
        Some e \<Rightarrow> Failed e
      | None \<Rightarrow>
          Translation
            (if truthy (translatedText s) then translatedText s else JStr no_translation_text)
            (expandTranslation s)
            (if truthy (translatedText s) then Some (copied s) else None))"

text \<open>Lines 534 and 633 to 698; \<open>None\<close> is the \<open>null\<close> of lines 534 and 634.\<close>

definition render :: "ui_state \<Rightarrow> view option" where
  "render s =
     (if \<not> isTranslateEnabled s then None
      else if \<not> isButtonVisible s \<and> \<not> isResultVisible s then None
      else Some
        \<lparr> view_button =
            (if isButtonVisible s then
               Some \<lparr> button_label = buttonText (selectedText s),
                      button_position = position s,
                      button_count =
                        (if 200 < length (selectedText s) then Some (length (selectedText s))
                         else None) \<rparr>
             else None),
          view_popup =
            (if isResultVisible s then
               Some \<lparr> popup_position = position s,
                      popup_source = selectedText s,
                      popup_source_expanded = expandSource s,
                      popup_chinese = isChineseText (selectedText s),
                      popup_shows = popup_body s \<rparr>
             else None) \<rparr>)"

definition button_rendered :: "ui_state \<Rightarrow> bool" where
  "button_rendered s \<longleftrightarrow> isTranslateEnabled s \<and> isButtonVisible s"

definition popup_rendered :: "ui_state \<Rightarrow> bool" where
  "popup_rendered s \<longleftrightarrow> isTranslateEnabled s \<and> isResultVisible s"

subsection \<open>Event handlers\<close>

text \<open>
  Lines 427 to 468. The refs of the button and of the popup are set while these are
  rendered.
\<close>

definition handleSelection :: "pointer \<Rightarrow> selection \<Rightarrow> ui_state \<Rightarrow> ui_state" where
  "handleSelection e sel s =
     (if \<not> isTranslateEnabled s then s
      else if isTranslating s then s
      else if button_rendered s \<and> on_button e \<or> popup_rendered s \<and> on_popup e then s
      else
        (let text = js_trim (selection_text sel) in
         if text \<noteq> [] then
           s\<lparr> position := (rect_left sel, rect_bottom sel + 5),
              selectedText := text,
              isButtonVisible := True \<rparr>
         else s\<lparr> isButtonVisible := False \<rparr>))"

text \<open>
  Lines 474 to 509. The \<open>finally\<close> of line 503 sets the timeout of 100 milliseconds on
  every pass that got beyond line 480.
\<close>

definition handleClickOutside :: "pointer \<Rightarrow> selection \<Rightarrow> ui_state \<Rightarrow> ui_state" where
  "handleClickOutside e sel s =
     (if \<not> isTranslateEnabled s then s
      else if isOutsideClickProcessing s then s
      else
        (let s1 = s\<lparr> isOutsideClickProcessing := True \<rparr>;
             s2 =
               (if button_rendered s \<and> on_button e then s1
                else if js_trim (selection_text sel) = [] \<and> \<not> isTranslating s \<and>
                        \<not> isResultVisible s
                  then s1\<lparr> frames := Suc (frames s1) \<rparr>
                else s1)
         in s2\<lparr> timers := timers s2 @ [(100, Release_processing_flag)] \<rparr>))"

text \<open>Lines 548 to 561 and 583 to 596, up to the \<open>await\<close> of line 555.\<close>

definition handleTranslate :: "ui_state \<Rightarrow> ui_state" where
  "handleTranslate s =
     s\<lparr> isTranslating := True,
        isButtonVisible := False,
        isResultVisible := True,
        isLoading := True,
        popup_error := None,
        copied := False,
        in_flight :=
          in_flight s @ [\<lparr> body_text = selectedText s, body_apiConfig = apiConfig s \<rparr>] \<rparr>"

text \<open>
  \<open>resp.error\<close> as a condition. The engines give their errors a message that is not
  empty.
\<close>

fun message_nonempty :: "message \<Rightarrow> bool" where
  "message_nonempty (Text t) = (t \<noteq> [])"
| "message_nonempty (Api_error_of v) = True"
| "message_nonempty (Engine e) = True"

text \<open>
  Lines 563 to 576, the rest of \<open>translateText\<close> once \<open>sendToBackground\<close> has settled.
  Nothing here asks which popup is open or whether one is.
\<close>

definition translateText_settled :: "relay_outcome \<Rightarrow> ui_state \<Rightarrow> ui_state" where
  "translateText_settled outcome s =
     (case outcome of
        Rejected \<Rightarrow> s\<lparr> popup_error := Some Messaging_failed, isLoading := False \<rparr>
      | Resolved resp \<Rightarrow>
          if (case error resp of Some m \<Rightarrow> message_nonempty m | None \<Rightarrow> False) then
            s\<lparr> popup_error := map_option Relay_error (error resp), isLoading := False \<rparr>
          else
            (case result resp of
               Some v \<Rightarrow>
                 if truthy v then s\<lparr> translatedText := v, isLoading := False \<rparr>
                 else s\<lparr> popup_error := Some No_result, isLoading := False \<rparr>
             | None \<Rightarrow> s\<lparr> popup_error := Some No_result, isLoading := False \<rparr>))"

text \<open>Lines 601 to 613.\<close>

definition copyTranslatedText :: "ui_state \<Rightarrow> ui_state" where
  "copyTranslatedText s =
     (if truthy (translatedText s) then s\<lparr> clipboard_writes := Suc (clipboard_writes s) \<rparr> else s)"

definition clipboard_settled :: "bool \<Rightarrow> ui_state \<Rightarrow> ui_state" where
  "clipboard_settled written s =
     (let s1 = s\<lparr> clipboard_writes := clipboard_writes s - 1 \<rparr> in
      if written then s1\<lparr> copied := True, timers := timers s1 @ [(2000, Clear_copied)] \<rparr>
      else s1)"

text \<open>Lines 619 to 631.\<close>

definition closeResult :: "ui_state \<Rightarrow> ui_state" where
  "closeResult s =
     s\<lparr> isResultVisible := False,
        translatedText := JStr [],
        popup_error := None,
        isTranslating := False,
        copied := False,
        expandSource := False,
        expandTranslation := False \<rparr>"

subsection \<open>Timeouts and animation frames\<close>

fun run_callback :: "timeout_callback \<Rightarrow> ui_state \<Rightarrow> ui_state" where
  "run_callback Release_processing_flag s = s\<lparr> isOutsideClickProcessing := False \<rparr>"
| "run_callback Clear_copied s = s\<lparr> copied := False \<rparr>"

text \<open>
  \<open>d\<close> milliseconds pass: the timeouts due within them run, the earliest first, and the
  others have that much less to wait.
\<close>

definition elapse :: "nat \<Rightarrow> ui_state \<Rightarrow> ui_state" where
  "elapse d s =
     fold (\<lambda>(left, cb). run_callback cb)
       (sort_key fst (filter (\<lambda>(left, cb). left \<le> d) (timers s)))
       (s\<lparr> timers := map (\<lambda>(left, cb). (left - d, cb)) (filter (\<lambda>(left, cb). d < left) (timers s)) \<rparr>)"

text \<open>Lines 499 to 501: every waiting callback hides the button.\<close>

definition animation_frame :: "ui_state \<Rightarrow> ui_state" where
  "animation_frame s = (if frames s = 0 then s else s\<lparr> isButtonVisible := False, frames := 0 \<rparr>)"

subsection \<open>Events\<close>

datatype event =
    MouseUp pointer selection
  | MouseDown pointer selection
  | Click_translate
  | Click_close
  | Click_copy
  | Clipboard_settles bool
  | Toggle_source bool
  | Toggle_translation bool
  | Drag "int \<times> int"
  | Relay_settles relay_outcome
  | Storage_changes "api_config option"
  | Elapse nat
  | Animation_frame

text \<open>
  The handler an event reaches. The document listeners run only while installed, a click
  reaches only what is rendered, and a promise settles only if it is pending.
\<close>

fun dispatch :: "event \<Rightarrow> ui_state \<Rightarrow> ui_state" where
  "dispatch (MouseUp e sel) s = (if listening s then handleSelection e sel s else s)"
| "dispatch (MouseDown e sel) s = (if listening s then handleClickOutside e sel s else s)"
| "dispatch Click_translate s = (if button_rendered s then handleTranslate s else s)"
| "dispatch Click_close s = (if popup_rendered s then closeResult s else s)"
| "dispatch Click_copy s =
     (if popup_rendered s \<and> \<not> isLoading s \<and> popup_error s = None then copyTranslatedText s
      else s)"
| "dispatch (Clipboard_settles written) s =
     (if clipboard_writes s = 0 then s else clipboard_settled written s)"
| "dispatch (Toggle_source b) s = (if popup_rendered s then s\<lparr> expandSource := b \<rparr> else s)"
| "dispatch (Toggle_translation b) s =
     (if popup_rendered s then s\<lparr> expandTranslation := b \<rparr> else s)"
| "dispatch (Drag p) s = (if popup_rendered s then s\<lparr> position := p \<rparr> else s)"
| "dispatch (Relay_settles outcome) s =
     (if in_flight s = [] then s
      else translateText_settled outcome (s\<lparr> in_flight := tl (in_flight s) \<rparr>))"
| "dispatch (Storage_changes cfg) s = s\<lparr> apiConfig := cfg \<rparr>"
| "dispatch (Elapse d) s = elapse d s"
| "dispatch Animation_frame s = animation_frame s"

text \<open>
  Lines 512 to 531, the effect. It runs after a render in which one of its three
  dependencies has changed: first the cleanup that the last run returned, which removes
  the listeners, then the body. Clearing the flags in the disabled branch may change the
  dependencies once more; the next run does the same again and changes nothing.
\<close>

definition effect_dependencies :: "ui_state \<Rightarrow> bool \<times> bool \<times> bool" where
  "effect_dependencies s = (isTranslating s, isResultVisible s, isTranslateEnabled s)"

definition run_effect :: "ui_state \<Rightarrow> ui_state" where
  "run_effect s =
     (if isTranslateEnabled s then s\<lparr> listening := True \<rparr>
      else s\<lparr> listening := False,
              isButtonVisible := False,
              isResultVisible := False,
              isTranslating := False \<rparr>)"

definition step :: "event \<Rightarrow> ui_state \<Rightarrow> ui_state" where
  "step ev s =
     (let s' = dispatch ev s in
      if effect_dependencies s' = effect_dependencies s then s' else run_effect s')"

definition run :: "event list \<Rightarrow> ui_state \<Rightarrow> ui_state" where
  "run evs s = fold step evs s"

section \<open>Notions and examples used in the statements\<close>

text \<open>
  The range the regular expression of both files tests for, U+4E00 to U+9FA5.
\<close>

definition in_tested_range :: "code_unit \<Rightarrow> bool" where
  "in_tested_range c \<longleftrightarrow> 0x4E00 \<le> c \<and> c \<le> 0x9FA5"

text \<open>
  The CJK ideographs of the Unicode standard that are single code units: the block of
  unified ideographs U+4E00 to U+9FFF, its Extension A U+3400 to U+4DBF, and the
  compatibility ideographs U+F900 to U+FAFF. The later extensions lie beyond U+FFFF and
  are pairs of surrogates in a string. This is what the words "CJK ideograph" cover; it
  is not taken from the code.
\<close>

definition unicode_cjk_ideograph :: "code_unit \<Rightarrow> bool" where
  "unicode_cjk_ideograph c \<longleftrightarrow>
     (0x4E00 \<le> c \<and> c \<le> 0x9FFF) \<or> (0x3400 \<le> c \<and> c \<le> 0x4DBF) \<or> (0xF900 \<le> c \<and> c \<le> 0xFAFF)"

text \<open>The state \<open>Idle\<close>: no button, no popup, no translation under way.\<close>

definition idle :: "ui_state \<Rightarrow> bool" where
  "idle s \<longleftrightarrow> \<not> isButtonVisible s \<and> \<not> isResultVisible s \<and> \<not> isTranslating s"

text \<open>Settings under which the feature is on: none stored, or \<open>enabled\<close> other than false.\<close>

definition config_enabled :: "api_config option \<Rightarrow> bool" where
  "config_enabled cfg = (case cfg of None \<Rightarrow> True | Some c \<Rightarrow> enabled c \<noteq> Some False)"

text \<open>The component while the feature is off.\<close>

definition switched_off :: "ui_state \<Rightarrow> bool" where
  "switched_off s \<longleftrightarrow> \<not> isTranslateEnabled s \<and> \<not> listening s \<and> idle s"

text \<open>A burst of mouse-down events on the document, with no time passing between them.\<close>

definition mouse_downs :: "(pointer \<times> selection) list \<Rightarrow> event list" where
  "mouse_downs clicks = map (\<lambda>(e, sel). MouseDown e sel) clicks"

text \<open>A request with a key, and a server that answers every call with the same response.\<close>

definition example_config :: api_config where
  "example_config =
     \<lparr> enabled = Some True, apiUrl = None, apiKey = Some (ascii ''sk-1''), model = None \<rparr>"

definition switched_off_config :: api_config where
  "switched_off_config =
     \<lparr> enabled = Some False, apiUrl = None, apiKey = Some (ascii ''sk-1''), model = None \<rparr>"

definition example_request :: request where
  "example_request = \<lparr> body_text = ascii ''hello'', body_apiConfig = Some example_config \<rparr>"

definition answering :: "bool \<Rightarrow> jsstring \<Rightarrow> jsstring \<Rightarrow> http_request \<Rightarrow> fetch_result" where
  "answering is_ok status text call =
     Responds \<lparr> ok = is_ok, statusText = status, response_text = text \<rparr>"

text \<open>
  The body \<open>{"choices":[{"message":{"content":"{"translation":"hello"}"}}]}\<close>, in which a
  backslash stands before each of the four quotes inside the content.
\<close>

definition hello_body :: jsstring where
  \<open>hello_body =
     ascii ''{"choices":[{"message":{"content":"{'' @ [0x5C] @ ascii ''"translation'' @ [0x5C] @
     ascii ''":'' @ [0x5C] @ ascii ''"hello'' @ [0x5C] @ ascii ''"}"}}]}''\<close>

text \<open>
  In the component: the word \<open>hello\<close> selected, with its rectangle; no selection; a mouse
  event away from button and popup; a successful response of the relay with the
  translation U+4F60 U+597D; the state after the selection, with the button shown; and
  the state after the click on the button, with the popup loading and the request
  pending.
\<close>

definition example_selection :: selection where
  "example_selection = \<lparr> selection_text = ascii ''hello'', rect_left = 100, rect_bottom = 200 \<rparr>"

definition no_selection :: selection where
  "no_selection = \<lparr> selection_text = [], rect_left = 0, rect_bottom = 0 \<rparr>"

definition outside :: pointer where
  "outside = \<lparr> on_button = False, on_popup = False \<rparr>"

definition example_translation :: relay_response where
  "example_translation =
     \<lparr> success = True, result = Some (JStr [0x4F60, 0x597D]), error = None \<rparr>"

definition selected_state :: ui_state where
  "selected_state = run [MouseUp outside example_selection] initial_state"

definition translating_state :: ui_state where
  "translating_state = run [MouseUp outside example_selection, Click_translate] initial_state"

section \<open>Auxiliary facts\<close>

subsection \<open>The relay\<close>

lemma js_get_truthy: "js_get v k = Inr w \<Longrightarrow> truthy w \<Longrightarrow> truthy v"
  by (cases v) (auto simp: dec_nonzero_def split: if_splits option.splits)

lemma js_get_first: "js_get (JArr (x # xs)) (ascii ''0'') = Inr x"
  by (simp add: ascii_def array_index_def)

lemma js_get_length: "js_get (JArr xs) (ascii ''length'') = Inr (JNum False (length xs) 0)"
  by simp

lemma extract_translation_content:
  assumes choices: "js_get data (ascii ''choices'') = Inr (JArr (first # others))"
    and message: "js_get first (ascii ''message'') = Inr msg"
    and content: "js_get msg (ascii ''content'') = Inr (JStr c)"
    and nonempty: "c \<noteq> []"
  shows "extract_translation data = Inr (parse_content (js_trim c))"
proof -
  have "truthy data"
    using choices by (rule js_get_truthy) simp
  moreover have "truthy msg"
    using content by (rule js_get_truthy) (simp add: nonempty)
  ultimately show ?thesis
    unfolding extract_translation_def
    by (simp add: choices message content nonempty js_get_first js_get_length dec_nonzero_def
          del: js_get.simps)
qed

lemma handler_responds:
  assumes "body_apiConfig req = Some cfg" "apiKey cfg = Some key" "key \<noteq> []"
    and "fetch (build_request cfg key (body_text req)) = Responds response"
  shows "handler fetch req = (handle_response response, [build_request cfg key (body_text req)])"
  using assms by (simp add: handler_def Let_def)

text \<open>
  An error response whose body is JSON: status 401 with the body
  \<open>{"error":{"message":"invalid key"}}\<close> gives the prefix followed by \<open>invalid key\<close>.
\<close>

lemma error_body_with_message:
  \<open>fst (handler (answering False (ascii ''Unauthorized'')
                  (ascii ''{"error":{"message":"invalid key"}}''))
          example_request) =
     \<lparr> success = False, result = None,
       error = Some (Text (api_error_prefix @ ascii ''invalid key'')) \<rparr>\<close>
  by code_simp

text \<open>
  An ok response whose first choice is an object without a message: the fallback gives
  the fixed text, and the response is a success.
\<close>

lemma choice_without_message:
  \<open>fst (handler (answering True (ascii ''OK'') (ascii ''{"choices":[{}]}'')) example_request) =
     \<lparr> success = True, result = Some (JStr fallback_text), error = None \<rparr>\<close>
  by code_simp

subsection \<open>The component\<close>

text \<open>Running timeouts changes nothing but \<open>copied\<close> and the processing flag.\<close>

lemma fold_callbacks:
  "fold (\<lambda>(left, cb). run_callback cb) cbs s =
     s\<lparr> copied := (if Clear_copied \<in> snd ` set cbs then False else copied s),
        isOutsideClickProcessing :=
          (if Release_processing_flag \<in> snd ` set cbs then False
           else isOutsideClickProcessing s) \<rparr>"
proof (induction cbs arbitrary: s)
  case Nil
  show ?case by simp
next
  case (Cons a cbs)
  obtain left cb where a: "a = (left, cb)" by (cases a)
  show ?case
    by (cases cb) (simp_all add: a Cons.IH)
qed

lemma elapse_eq:
  "elapse d s =
     s\<lparr> timers := map (\<lambda>(left, cb). (left - d, cb)) (filter (\<lambda>(left, cb). d < left) (timers s)),
        copied :=
          (if Clear_copied \<in> snd ` {t \<in> set (timers s). fst t \<le> d} then False else copied s),
        isOutsideClickProcessing :=
          (if Release_processing_flag \<in> snd ` {t \<in> set (timers s). fst t \<le> d} then False
           else isOutsideClickProcessing s) \<rparr>"
proof -
  have "set (sort_key fst (filter (\<lambda>(left, cb). left \<le> d) (timers s))) =
          {t \<in> set (timers s). fst t \<le> d}"
    by (auto simp: case_prod_beta)
  then show ?thesis
    by (simp add: elapse_def fold_callbacks)
qed

lemma step_elapse: "step (Elapse d) t = elapse d t"
proof -
  have "effect_dependencies (elapse d t) = effect_dependencies t"
    by (subst elapse_eq) (simp add: effect_dependencies_def isTranslateEnabled_def)
  then show ?thesis
    by (simp add: step_def)
qed

lemma handleClickOutside_eq:
  "handleClickOutside e sel s =
     (if isTranslateEnabled s \<and> \<not> isOutsideClickProcessing s then
        s\<lparr> isOutsideClickProcessing := True,
           timers := timers s @ [(100, Release_processing_flag)],
           frames :=
             (if \<not> (button_rendered s \<and> on_button e) \<and> js_trim (selection_text sel) = [] \<and>
                 \<not> isTranslating s \<and> \<not> isResultVisible s
              then Suc (frames s) else frames s) \<rparr>
      else s)"
  by (simp add: handleClickOutside_def Let_def)

lemma step_mouse_down:
  "step (MouseDown e sel) s = (if listening s then handleClickOutside e sel s else s)"
  by (simp add: step_def Let_def handleClickOutside_eq effect_dependencies_def
        isTranslateEnabled_def)

lemma mouse_down_ignored:
  "isOutsideClickProcessing s \<Longrightarrow> step (MouseDown e sel) s = s"
  by (simp add: step_mouse_down handleClickOutside_eq)

lemma mouse_down_twice:
  "step (MouseDown e' sel') (step (MouseDown e sel) s) = step (MouseDown e sel) s"
proof (cases "listening s \<and> isTranslateEnabled s \<and> \<not> isOutsideClickProcessing s")
  case False
  then have "step (MouseDown e sel) s = s" and "step (MouseDown e' sel') s = s"
    by (auto simp: step_mouse_down handleClickOutside_eq)
  then show ?thesis by simp
next
  case True
  then have "isOutsideClickProcessing (step (MouseDown e sel) s)"
    by (simp add: step_mouse_down handleClickOutside_eq)
  then show ?thesis by (rule mouse_down_ignored)
qed

lemma run_mouse_downs_fixed:
  assumes "\<And>e sel. step (MouseDown e sel) t = t"
  shows "run (mouse_downs clicks) t = t"
  using assms by (induction clicks) (auto simp: run_def mouse_downs_def)

lemma step_storage_off:
  assumes "isTranslateEnabled s" and "enabled off = Some False"
  shows "step (Storage_changes (Some off)) s =
           s\<lparr> apiConfig := Some off, listening := False, isButtonVisible := False,
              isResultVisible := False, isTranslating := False \<rparr>"
  using assms
  by (simp add: step_def effect_dependencies_def isTranslateEnabled_def run_effect_def Let_def)

text \<open>
  While the feature is off nothing switches it on but the storage: the listeners are
  gone, nothing is rendered that could be clicked, and promises and timeouts that settle
  touch neither the three flags nor the listeners.
\<close>

lemma dispatch_switched_off:
  assumes "switched_off s"
    and "\<And>cfg. ev = Storage_changes cfg \<Longrightarrow> \<not> config_enabled cfg"
  shows "switched_off (dispatch ev s)"
proof (cases ev)
  case (Relay_settles outcome)
  with assms(1) show ?thesis
    by (simp add: switched_off_def idle_def isTranslateEnabled_def translateText_settled_def
          split: relay_outcome.splits option.splits)
next
  case (Storage_changes cfg)
  with assms show ?thesis
    by (simp add: switched_off_def idle_def isTranslateEnabled_def config_enabled_def)
next
  case (Elapse d)
  with assms(1) show ?thesis
    by (simp add: elapse_eq switched_off_def idle_def isTranslateEnabled_def)
next
  case (Clipboard_settles written)
  with assms(1) show ?thesis
    by (simp add: switched_off_def idle_def isTranslateEnabled_def clipboard_settled_def Let_def)
qed (use assms(1) in \<open>simp_all add: switched_off_def idle_def isTranslateEnabled_def
      button_rendered_def popup_rendered_def animation_frame_def\<close>)

lemma step_switched_off:
  assumes "switched_off s"
    and "\<And>cfg. ev = Storage_changes cfg \<Longrightarrow> \<not> config_enabled cfg"
  shows "switched_off (step ev s)"
proof -
  have off: "switched_off (dispatch ev s)"
    using assms by (rule dispatch_switched_off)
  with assms(1) have "effect_dependencies (dispatch ev s) = effect_dependencies s"
    by (simp add: switched_off_def idle_def effect_dependencies_def)
  with off show ?thesis
    by (simp add: step_def)
qed

lemma run_switched_off:
  assumes "switched_off s"
    and "\<forall>ev \<in> set evs. \<forall>cfg. ev = Storage_changes cfg \<longrightarrow> \<not> config_enabled cfg"
  shows "switched_off (run evs s)"
  using assms
proof (induction evs arbitrary: s)
  case Nil
  then show ?case by (simp add: run_def)
next
  case (Cons ev evs)
  from Cons.prems have "switched_off (step ev s)"
    by (intro step_switched_off) auto
  with Cons show ?case
    by (simp add: run_def)
qed

lemma switched_off_render: "switched_off s \<Longrightarrow> render s = None"
  by (simp add: switched_off_def render_def)

section \<open>The claims\<close>

text \<open>
  C1, as the code has it. When the popup is closed while a request is pending and the
  relay then resolves with a truthy result and no error, the result is not discarded:
  the translated text, emptied by the close, is set to the result and the loading flag
  is cleared, while the popup stays hidden. Nothing in lines 563 to 576 asks which
  invocation is the active one.
\<close>

theorem stale_result_is_applied:
  assumes "popup_rendered s" and "in_flight s \<noteq> []"
    and "error resp = None" and "result resp = Some v" and "truthy v"
  shows "translatedText (step Click_close s) = JStr [] \<and>
         translatedText (step (Relay_settles (Resolved resp)) (step Click_close s)) = v \<and>
         \<not> isLoading (step (Relay_settles (Resolved resp)) (step Click_close s)) \<and>
         \<not> isResultVisible (step (Relay_settles (Resolved resp)) (step Click_close s))"
  using assms
  by (simp add: step_def popup_rendered_def closeResult_def translateText_settled_def
        effect_dependencies_def run_effect_def isTranslateEnabled_def Let_def)

theorem stale_result_is_applied_witness:
  "translatedText (step Click_close translating_state) = JStr [] \<and>
   translatedText
     (step (Relay_settles (Resolved example_translation)) (step Click_close translating_state)) =
     JStr [0x4F60, 0x597D] \<and>
   \<not> isLoading
     (step (Relay_settles (Resolved example_translation)) (step Click_close translating_state)) \<and>
   \<not> isResultVisible
     (step (Relay_settles (Resolved example_translation)) (step Click_close translating_state))"
proof -
  have "popup_rendered translating_state" and "in_flight translating_state \<noteq> []"
    by code_simp+
  moreover have "error example_translation = None"
    and "result example_translation = Some (JStr [0x4F60, 0x597D])"
    and "truthy (JStr [0x4F60, 0x597D])"
    by (simp_all add: example_translation_def)
  ultimately show ?thesis
    by (rule stale_result_is_applied)
qed

text \<open>
  The claim as stated fails: select \<open>hello\<close>, click the button, close the popup, and let
  the relay resolve. After the close a request is pending and the translated text is
  empty; after the response it is the translation.
\<close>

theorem stale_result_counterexample:
  "in_flight (run [Click_close] translating_state) \<noteq> [] \<and>
   translatedText (run [Click_close] translating_state) = JStr [] \<and>
   translatedText
     (run [Click_close, Relay_settles (Resolved example_translation)] translating_state) =
     JStr [0x4F60, 0x597D]"
  by code_simp

text \<open>
  C2, as the code has it. For every ok response whose first choice's message content is a
  non-empty string \<open>c\<close>, let \<open>t\<close> be \<open>c\<close> without its leading and trailing white space.
  The handler succeeds, and its result is: \<open>t\<close>, if \<open>t\<close> does not parse as JSON; the
  \<open>translation\<close> of the parsed value, if that is truthy; and \<open>t\<close>, if \<open>t\<close> parses to a
  value without a truthy \<open>translation\<close>.
\<close>

theorem content_is_trimmed_then_parsed:
  assumes "body_apiConfig req = Some cfg" and "apiKey cfg = Some key" and "key \<noteq> []"
    and "fetch (build_request cfg key (body_text req)) = Responds response"
    and "ok response"
    and "JSON_parse (response_text response) = Some data"
    and "js_get data (ascii ''choices'') = Inr (JArr (first # others))"
    and "js_get first (ascii ''message'') = Inr msg"
    and "js_get msg (ascii ''content'') = Inr (JStr c)"
    and "c \<noteq> []"
  shows "success (fst (handler fetch req)) \<and> error (fst (handler fetch req)) = None \<and>
         (JSON_parse (js_trim c) = None \<longrightarrow>
            result (fst (handler fetch req)) = Some (JStr (js_trim c))) \<and>
         (\<forall>j t. JSON_parse (js_trim c) = Some j \<and> js_get j (ascii ''translation'') = Inr t \<and>
                truthy t \<longrightarrow>
            result (fst (handler fetch req)) = Some t) \<and>
         (\<forall>j. JSON_parse (js_trim c) = Some j \<and>
              (\<forall>t. js_get j (ascii ''translation'') = Inr t \<longrightarrow> \<not> truthy t) \<longrightarrow>
            result (fst (handler fetch req)) = Some (JStr (js_trim c)))"
proof -
  have "extract_translation data = Inr (parse_content (js_trim c))"
    using assms(7-10) by (rule extract_translation_content)
  then have sent: "fst (handler fetch req) = send_success (parse_content (js_trim c))"
    using assms(1-6) by (simp add: handler_responds handle_response_def translated_text_def)
  have failed: "JSON_parse (js_trim c) = None \<Longrightarrow> parse_content (js_trim c) = JStr (js_trim c)"
    by (simp add: parse_content_def)
  have field: "parse_content (js_trim c) = t"
    if "JSON_parse (js_trim c) = Some j" "js_get j (ascii ''translation'') = Inr t" "truthy t"
    for j t
    using that js_get_truthy [of j "ascii ''translation''" t] by (simp add: parse_content_def)
  have no_field: "parse_content (js_trim c) = JStr (js_trim c)"
    if "JSON_parse (js_trim c) = Some j"
      "\<forall>t. js_get j (ascii ''translation'') = Inr t \<longrightarrow> \<not> truthy t"
    for j
    using that by (auto simp: parse_content_def split: sum.splits)
  show ?thesis
    using failed field no_field by (auto simp: sent send_success_def)
qed

theorem content_is_trimmed_then_parsed_witness:
  "result (fst (handler (answering True (ascii ''OK'') hello_body) example_request)) =
     Some (JStr (ascii ''hello''))"
proof -
  let ?c = \<open>ascii ''{"translation":"hello"}''\<close>
  let ?msg = "JObj [(ascii ''content'', JStr ?c)]"
  let ?first = "JObj [(ascii ''message'', ?msg)]"
  let ?data = "JObj [(ascii ''choices'', JArr [?first])]"
  let ?response = "\<lparr> ok = True, statusText = ascii ''OK'', response_text = hello_body \<rparr>"
  let ?j = "JObj [(ascii ''translation'', JStr (ascii ''hello''))]"
  have config: "body_apiConfig example_request = Some example_config"
    by (simp add: example_request_def)
  have key: "apiKey example_config = Some (ascii ''sk-1'')"
    by (simp add: example_config_def)
  have key_nonempty: "ascii ''sk-1'' \<noteq> []"
    by (simp add: ascii_def)
  have responds:
    "answering True (ascii ''OK'') hello_body
       (build_request example_config (ascii ''sk-1'') (body_text example_request)) =
     Responds ?response"
    by (simp add: answering_def)
  have is_ok: "ok ?response"
    by simp
  have data: "JSON_parse (response_text ?response) = Some ?data"
    by code_simp
  have choices: "js_get ?data (ascii ''choices'') = Inr (JArr (?first # []))"
    by code_simp
  have message: "js_get ?first (ascii ''message'') = Inr ?msg"
    by code_simp
  have content: "js_get ?msg (ascii ''content'') = Inr (JStr ?c)"
    by code_simp
  have nonempty: "?c \<noteq> []"
    by (simp add: ascii_def)
  have parsed: "JSON_parse (js_trim ?c) = Some ?j"
    by code_simp
  have field: "js_get ?j (ascii ''translation'') = Inr (JStr (ascii ''hello''))"
    by code_simp
  have "truthy (JStr (ascii ''hello''))"
    by (simp add: ascii_def)
  with parsed field
    content_is_trimmed_then_parsed
      [where fetch = "answering True (ascii ''OK'') hello_body" and req = example_request,
       OF config key key_nonempty responds is_ok data choices message content nonempty]
  show ?thesis
    by blast
qed

text \<open>
  The claim as stated fails: the content \<open>" hello"\<close>, with a space in front, is not JSON,
  and the result is \<open>"hello"\<close>, not the content as it came.
\<close>

theorem raw_content_counterexample:
  \<open>fst (handler (answering True (ascii ''OK'')
                  (ascii ''{"choices":[{"message":{"content":" hello"}}]}''))
          example_request) =
     \<lparr> success = True, result = Some (JStr (ascii ''hello'')), error = None \<rparr> \<and>
   JSON_parse (ascii '' hello'') = None \<and>
   ascii ''hello'' \<noteq> ascii '' hello''\<close>
  by code_simp

text \<open>
  C3. For every request whose \<open>apiConfig\<close> is absent or whose \<open>apiKey\<close> is absent or
  empty, the handler sends \<open>{success: false, error: <the missing-key text>}\<close> and makes
  no call of \<open>fetch\<close>.
\<close>

theorem missing_key_fails_without_fetch:
  assumes "body_apiConfig req = None \<or>
           (\<exists>cfg. body_apiConfig req = Some cfg \<and> (apiKey cfg = None \<or> apiKey cfg = Some []))"
  shows "handler fetch req =
           (\<lparr> success = False, result = None, error = Some (Text missing_key_text) \<rparr>, [])"
  using assms by (auto simp: handler_def send_failure_def)

theorem missing_key_fails_without_fetch_witness:
  "handler (answering True (ascii ''OK'') (ascii ''{}''))
     \<lparr> body_text = ascii ''hello'',
       body_apiConfig = Some \<lparr> enabled = None, apiUrl = None, apiKey = Some [], model = None \<rparr> \<rparr> =
   (\<lparr> success = False, result = None, error = Some (Text missing_key_text) \<rparr>, [])"
  using missing_key_fails_without_fetch
    [of "\<lparr> body_text = ascii ''hello'',
          body_apiConfig = Some \<lparr> enabled = None, apiUrl = None, apiKey = Some [], model = None \<rparr> \<rparr>"
        "answering True (ascii ''OK'') (ascii ''{}'')"]
  by simp

text \<open>
  C4 fails on an error response whose body is not JSON: status 502, \<open>Bad Gateway\<close>, with
  an HTML body. \<open>response.json()\<close> rejects, and the error sent is the message of that
  SyntaxError, not the prefix followed by the status text.
\<close>

theorem error_body_not_json:
  \<open>fst (handler (answering False (ascii ''Bad Gateway'') (ascii ''<html>Bad Gateway</html>''))
          example_request) =
     \<lparr> success = False, result = None, error = Some (Engine JSON_syntax_error) \<rparr>\<close>
  by code_simp

text \<open>
  C5, as the code has it. The relay and the component test the text in the same way, for
  a code unit from U+4E00 to U+9FA5. A text with one gets the prompt for a translation
  into English and the button label "translate into English"; a text without one gets
  the prompt for a translation into Chinese and the label "translate into Chinese", also
  when it holds an ideograph from outside that range. The two prompts differ, and so do
  the two labels. The label of a rendered button is the one for the selected text, and
  the request that a click on the button issues carries that same text.
\<close>

theorem direction_agrees:
  "relay_isChineseText text = isChineseText text \<and>
   (list_ex in_tested_range text \<longrightarrow>
      systemPrompt text = prompt_to_english \<and> buttonText text = label_to_english) \<and>
   (\<not> list_ex in_tested_range text \<longrightarrow>
      systemPrompt text = prompt_to_chinese \<and> buttonText text = label_to_chinese) \<and>
   prompt_to_english \<noteq> prompt_to_chinese \<and> label_to_english \<noteq> label_to_chinese \<and>
   (button_rendered s \<longrightarrow>
      (\<exists>v b. render s = Some v \<and> view_button v = Some b \<and>
             button_label b = buttonText (selectedText s)) \<and>
      body_text (last (in_flight (step Click_translate s))) = selectedText s)"
proof -
  have "prompt_to_english \<noteq> prompt_to_chinese"
    by (simp add: prompt_to_english_def prompt_to_chinese_def)
  moreover have "label_to_english \<noteq> label_to_chinese"
    by (simp add: label_to_english_def label_to_chinese_def)
  moreover have "relay_isChineseText text = list_ex in_tested_range text"
    and "isChineseText text = list_ex in_tested_range text"
    by (simp_all add: relay_isChineseText_def isChineseText_def in_tested_range_def [abs_def])
  moreover have "\<exists>v b. render s = Some v \<and> view_button v = Some b \<and>
             button_label b = buttonText (selectedText s)"
    if "button_rendered s"
    using that by (simp add: button_rendered_def render_def)
  moreover have "body_text (last (in_flight (step Click_translate s))) = selectedText s"
    if "button_rendered s"
    using that
    by (simp add: step_def handleTranslate_def run_effect_def Let_def)
  ultimately show ?thesis
    by (simp add: systemPrompt_def buttonText_def)
qed

theorem direction_agrees_witness:
  "systemPrompt [0x4F60, 0x597D] = prompt_to_english \<and>
   buttonText [0x4F60, 0x597D] = label_to_english \<and>
   systemPrompt (ascii ''hello'') = prompt_to_chinese \<and>
   buttonText (ascii ''hello'') = label_to_chinese \<and>
   body_text (last (in_flight (step Click_translate selected_state))) = ascii ''hello''"
proof -
  have "button_rendered selected_state" and "selectedText selected_state = ascii ''hello''"
    by code_simp+
  with direction_agrees [of "[0x4F60, 0x597D]" selected_state]
    direction_agrees [of "ascii ''hello''" selected_state]
  show ?thesis
    by (simp add: in_tested_range_def ascii_def)
qed

text \<open>
  The claim as stated fails: the text of the one character U+3400, an ideograph of
  Extension A, holds a CJK ideograph, and both sides treat it as not Chinese: the relay
  asks for a translation into Chinese and the button offers one.
\<close>

theorem ideograph_outside_range_counterexample:
  "list_ex unicode_cjk_ideograph [0x3400] \<and>
   systemPrompt [0x3400] = prompt_to_chinese \<and>
   buttonText [0x3400] = label_to_chinese \<and>
   prompt_to_chinese \<noteq> prompt_to_english \<and>
   label_to_chinese \<noteq> label_to_english"
  by (simp add: unicode_cjk_ideograph_def systemPrompt_def buttonText_def
        relay_isChineseText_def isChineseText_def prompt_to_english_def prompt_to_chinese_def
        label_to_english_def label_to_chinese_def)

text \<open>
  C6, as the code has it. The close action on a rendered popup hides it, empties the
  translated text, clears the error, the \<open>copied\<close> mark, both expand flags and the
  translating flag, whatever they were; the position keeps its value.
\<close>

theorem close_resets_popup_fields:
  assumes "popup_rendered s"
  shows "\<not> isResultVisible (step Click_close s) \<and>
         translatedText (step Click_close s) = JStr [] \<and>
         popup_error (step Click_close s) = None \<and>
         \<not> copied (step Click_close s) \<and>
         \<not> expandSource (step Click_close s) \<and>
         \<not> expandTranslation (step Click_close s) \<and>
         \<not> isTranslating (step Click_close s) \<and>
         position (step Click_close s) = position s"
  using assms
  by (simp add: step_def popup_rendered_def closeResult_def effect_dependencies_def
        run_effect_def isTranslateEnabled_def Let_def)

theorem close_resets_popup_fields_witness:
  "\<not> isResultVisible (step Click_close translating_state) \<and>
   translatedText (step Click_close translating_state) = JStr [] \<and>
   popup_error (step Click_close translating_state) = None \<and>
   \<not> copied (step Click_close translating_state) \<and>
   \<not> expandSource (step Click_close translating_state) \<and>
   \<not> expandTranslation (step Click_close translating_state) \<and>
   \<not> isTranslating (step Click_close translating_state) \<and>
   position (step Click_close translating_state) = position translating_state"
proof -
  have "popup_rendered translating_state"
    by code_simp
  then show ?thesis
    by (rule close_resets_popup_fields)
qed

text \<open>
  The claim as stated fails: the popup opened for a selection whose rectangle has its
  left edge at 100 and its bottom at 200 stands at (100, 205), and after the close the
  position is still that, not the initial (0, 0).
\<close>

theorem close_keeps_position_counterexample:
  "popup_rendered translating_state \<and>
   position (step Click_close translating_state) = (100, 205) \<and>
   position initial_state = (0, 0)"
  by code_simp

text \<open>
  C7, as the code has it. Every response of the handler carries exactly one payload:
  \<open>success\<close> is true and there is a result and no error, or \<open>success\<close> is false and
  there is an error message and no result. The result is a value of the provider's
  choosing, not always a string.
\<close>

theorem exactly_one_payload:
  "success (fst (handler fetch req)) \<and> result (fst (handler fetch req)) \<noteq> None \<and>
     error (fst (handler fetch req)) = None \<or>
   \<not> success (fst (handler fetch req)) \<and> result (fst (handler fetch req)) = None \<and>
     error (fst (handler fetch req)) \<noteq> None"
  by (simp add: handler_def handle_response_def send_success_def send_failure_def Let_def
        split: option.splits sum.splits fetch_result.splits)

theorem exactly_one_payload_witness:
  "success (fst (handler (answering True (ascii ''OK'') hello_body) example_request)) \<and>
   result (fst (handler (answering True (ascii ''OK'') hello_body) example_request)) =
     Some (JStr (ascii ''hello'')) \<and>
   error (fst (handler (answering True (ascii ''OK'') hello_body) example_request)) = None"
proof -
  have "result (fst (handler (answering True (ascii ''OK'') hello_body) example_request)) =
          Some (JStr (ascii ''hello''))"
    by code_simp
  with exactly_one_payload [of "answering True (ascii ''OK'') hello_body" example_request]
  show ?thesis
    by auto
qed

text \<open>
  The claim as stated fails: when the content is the number 42, \<open>content.trim()\<close> throws,
  the fallback of line 99 takes the content as it is, and the result is a number.
\<close>

theorem result_not_a_string_counterexample:
  \<open>fst (handler (answering True (ascii ''OK'')
                  (ascii ''{"choices":[{"message":{"content":42}}]}''))
          example_request) =
     \<lparr> success = True, result = Some (JNum False 42 0), error = None \<rparr>\<close>
  by code_simp

text \<open>
  C8. While the processing flag is set, a mouse-down on the document changes nothing. A
  pass that is handled sets the flag, and the flag is released once 100 milliseconds
  have passed. A burst of mouse-downs does what its first event does: the flag and the
  timeouts apart, the state is as before, and at most one more callback that hides the
  button waits for the next animation frame.
\<close>

theorem outside_click_reentrancy:
  "(isOutsideClickProcessing s \<longrightarrow> step (MouseDown e sel) s = s) \<and>
   (listening s \<and> isTranslateEnabled s \<and> \<not> isOutsideClickProcessing s \<and> 100 \<le> d \<longrightarrow>
      isOutsideClickProcessing (step (MouseDown e sel) s) \<and>
      \<not> isOutsideClickProcessing (step (Elapse d) (step (MouseDown e sel) s))) \<and>
   run (mouse_downs ((e, sel) # rest)) s = step (MouseDown e sel) s \<and>
   (\<exists>flag pending n.
      n \<le> Suc (frames s) \<and>
      step (MouseDown e sel) s =
        s\<lparr> isOutsideClickProcessing := flag, timers := pending, frames := n \<rparr>)"
proof (intro conjI impI)
  assume "isOutsideClickProcessing s"
  then show "step (MouseDown e sel) s = s" by (rule mouse_down_ignored)
next
  assume a: "listening s \<and> isTranslateEnabled s \<and> \<not> isOutsideClickProcessing s \<and> 100 \<le> d"
  then show "isOutsideClickProcessing (step (MouseDown e sel) s)"
    by (simp add: step_mouse_down handleClickOutside_eq)
next
  assume a: "listening s \<and> isTranslateEnabled s \<and> \<not> isOutsideClickProcessing s \<and> 100 \<le> d"
  define s1 where "s1 = step (MouseDown e sel) s"
  have timer: "timers s1 = timers s @ [(100, Release_processing_flag)]"
    using a by (simp add: s1_def step_mouse_down handleClickOutside_eq)
  have "(100, Release_processing_flag) \<in> {t \<in> set (timers s1). fst t \<le> d}"
    using a by (simp add: timer)
  then have due: "Release_processing_flag \<in> snd ` {t \<in> set (timers s1). fst t \<le> d}"
    by force
  have "\<not> isOutsideClickProcessing (elapse d s1)"
    by (subst elapse_eq) (simp add: due)
  then show "\<not> isOutsideClickProcessing (step (Elapse d) (step (MouseDown e sel) s))"
    by (simp add: step_elapse s1_def)
next
  have "run (mouse_downs rest) (step (MouseDown e sel) s) = step (MouseDown e sel) s"
    by (rule run_mouse_downs_fixed) (rule mouse_down_twice)
  then show "run (mouse_downs ((e, sel) # rest)) s = step (MouseDown e sel) s"
    by (simp add: run_def mouse_downs_def)
next
  show "\<exists>flag pending n.
      n \<le> Suc (frames s) \<and>
      step (MouseDown e sel) s =
        s\<lparr> isOutsideClickProcessing := flag, timers := pending, frames := n \<rparr>"
  proof (cases "listening s \<and> isTranslateEnabled s \<and> \<not> isOutsideClickProcessing s")
    case False
    then have "step (MouseDown e sel) s = s"
      by (auto simp: step_mouse_down handleClickOutside_eq)
    then have "frames s \<le> Suc (frames s) \<and>
      step (MouseDown e sel) s =
        s\<lparr> isOutsideClickProcessing := isOutsideClickProcessing s, timers := timers s,
           frames := frames s \<rparr>"
      by simp
    then show ?thesis by blast
  next
    case True
    let ?n = "if \<not> (button_rendered s \<and> on_button e) \<and> js_trim (selection_text sel) = [] \<and>
                 \<not> isTranslating s \<and> \<not> isResultVisible s
              then Suc (frames s) else frames s"
    have "?n \<le> Suc (frames s) \<and>
      step (MouseDown e sel) s =
        s\<lparr> isOutsideClickProcessing := True,
           timers := timers s @ [(100, Release_processing_flag)], frames := ?n \<rparr>"
      using True by (simp add: step_mouse_down handleClickOutside_eq)
    then show ?thesis by blast
  qed
qed

theorem outside_click_reentrancy_witness:
  "run (mouse_downs [(outside, no_selection), (outside, no_selection), (outside, no_selection)])
     selected_state =
   step (MouseDown outside no_selection) selected_state \<and>
   isOutsideClickProcessing (step (MouseDown outside no_selection) selected_state) \<and>
   \<not> isOutsideClickProcessing
       (step (Elapse 100) (step (MouseDown outside no_selection) selected_state))"
proof -
  have "listening selected_state" and "isTranslateEnabled selected_state"
    and "\<not> isOutsideClickProcessing selected_state"
    by code_simp+
  with outside_click_reentrancy
    [of selected_state outside no_selection 100
        "[(outside, no_selection), (outside, no_selection)]"]
  show ?thesis
    by simp
qed

text \<open>
  C9. When the stored settings switch the feature off, the component renders nothing,
  the two document listeners are removed, and the button-visible, result-visible and
  translating flags are cleared. This stays so whatever happens until settings that
  switch the feature on are stored; then the listeners are installed again and the
  component is idle.
\<close>

theorem disable_then_enable:
  assumes "isTranslateEnabled s" and "enabled off = Some False"
    and "\<forall>ev \<in> set evs. \<forall>cfg. ev = Storage_changes cfg \<longrightarrow> \<not> config_enabled cfg"
    and "config_enabled on"
  shows "render (step (Storage_changes (Some off)) s) = None \<and>
         \<not> listening (step (Storage_changes (Some off)) s) \<and>
         idle (step (Storage_changes (Some off)) s) \<and>
         render (run evs (step (Storage_changes (Some off)) s)) = None \<and>
         \<not> listening (run evs (step (Storage_changes (Some off)) s)) \<and>
         idle (run evs (step (Storage_changes (Some off)) s)) \<and>
         isTranslateEnabled
           (step (Storage_changes on) (run evs (step (Storage_changes (Some off)) s))) \<and>
         listening (step (Storage_changes on) (run evs (step (Storage_changes (Some off)) s))) \<and>
         idle (step (Storage_changes on) (run evs (step (Storage_changes (Some off)) s)))"
proof -
  define s1 where "s1 = step (Storage_changes (Some off)) s"
  define s2 where "s2 = run evs s1"
  have off1: "switched_off s1"
    using assms(1,2)
    by (simp add: s1_def step_storage_off switched_off_def idle_def isTranslateEnabled_def)
  then have off2: "switched_off s2"
    unfolding s2_def using assms(3) by (rule run_switched_off)
  have on3: "isTranslateEnabled (step (Storage_changes on) s2) \<and>
             listening (step (Storage_changes on) s2) \<and> idle (step (Storage_changes on) s2)"
    using off2 assms(4)
    by (simp add: step_def switched_off_def idle_def effect_dependencies_def run_effect_def
          isTranslateEnabled_def config_enabled_def Let_def)
  from off1 off2 on3 show ?thesis
    by (simp add: switched_off_render switched_off_def s1_def [symmetric] s2_def [symmetric])
qed

theorem disable_then_enable_witness:
  "render (step (Storage_changes (Some switched_off_config)) translating_state) = None \<and>
   \<not> listening (step (Storage_changes (Some switched_off_config)) translating_state) \<and>
   idle (step (Storage_changes (Some switched_off_config)) translating_state) \<and>
   listening
     (step (Storage_changes (Some example_config))
        (run [Relay_settles (Resolved example_translation), Elapse 50]
           (step (Storage_changes (Some switched_off_config)) translating_state))) \<and>
   idle
     (step (Storage_changes (Some example_config))
        (run [Relay_settles (Resolved example_translation), Elapse 50]
           (step (Storage_changes (Some switched_off_config)) translating_state)))"
proof -
  have "isTranslateEnabled translating_state"
    by code_simp
  moreover have "enabled switched_off_config = Some False"
    by (simp add: switched_off_config_def)
  moreover have
    "\<forall>ev \<in> set [Relay_settles (Resolved example_translation), Elapse 50].
       \<forall>cfg. ev = Storage_changes cfg \<longrightarrow> \<not> config_enabled cfg"
    by simp
  moreover have "config_enabled (Some example_config)"
    by (simp add: config_enabled_def example_config_def)
  ultimately show ?thesis
    using disable_then_enable
      [of translating_state switched_off_config
          "[Relay_settles (Resolved example_translation), Elapse 50]" "Some example_config"]
    by simp
qed

text \<open>
  C10 fails on an ok response with the body \<open>{"choices":[null]}\<close>. Line 72 reads
  \<open>message\<close> from \<open>null\<close> and throws; the fallback of line 99 guards \<open>message\<close> with
  \<open>?.\<close> but reads it from \<open>null\<close> again; that second TypeError leaves the inner
  \<open>catch\<close>, and the outer one sends \<open>success: false\<close>.
\<close>

theorem null_choice_fails:
  \<open>fst (handler (answering True (ascii ''OK'') (ascii ''{"choices":[null]}'')) example_request) =
     \<lparr> success = False, result = None, error = Some (Engine Read_of_nullish) \<rparr>\<close>
  by code_simp

end
